theory Spec2Isabelle
  imports Complex_Main
begin

section \<open>Blocking kernel channels (IPython/kernel/blocking/channels.py)\<close>

text \<open>
  The module wraps one ZMQ socket per channel and reads messages from it synchronously.
  The embedding keeps the module's classes and methods under their own names. The
  objects the module receives from elsewhere (the ZMQ socket, the session, the socket
  factories and the protocol constant it imports) are written out below as data, so that
  every method is a function from the state before the call to the result and the state
  after it.
\<close>

subsection \<open>Exceptions\<close>

text \<open>
  Every exception the module raises or lets through is a value. \<open>Empty\<close> is the queue
  module's exception, \<open>InvalidPortNumber\<close> the one imported from
  \<^verbatim>\<open>IPython.kernel.channels\<close>; the others are Python's own. All of them are subclasses
  of \<^verbatim>\<open>Exception\<close>; an interrupt delivered from outside while a call runs is not
  part of the model.
\<close>

datatype error =
    InvalidPortNumber string
  | Empty
  | KeyError string
  | AttributeError string
  | ValueError string
  | IndexError
  | OverflowError string
  | ZMQError string

subsection \<open>Numbers and the interpreter\<close>

text \<open>
  A timeout is a Python \<^verbatim>\<open>int\<close> or \<^verbatim>\<open>float\<close>. A float is a rational number (its
  exact value), an infinity or not-a-number.
\<close>

datatype pyfloat = Finite rat | PosInf | NegInf | NaN

datatype number = IntNum int | FloatNum pyfloat

text \<open>
  The interpreter is CPython 3. What differs between its versions and settings, or is
  fixed by the platform's floating point, is a parameter:
  \<^item> \<open>int_underscores\<close>: whether \<^verbatim>\<open>int\<close> accepts single underscores between the
    digits of a literal (it does from version 3.6 on);
  \<^item> \<open>int_max_str_digits\<close>: the limit on the digits of a literal that \<^verbatim>\<open>int\<close>
    converts, 0 for no limit (4300 by default from version 3.11 on; the limit applies
    to literals of more than 640 digits only);
  \<^item> \<open>float_round\<close>: the float that the exact product of two floats is rounded to.
\<close>

record interpreter =
  int_underscores :: bool
  int_max_str_digits :: nat
  float_round :: "rat \<Rightarrow> pyfloat"

subsection \<open>Messages\<close>

text \<open>
  A deserialized message is a dictionary; the module reads its keys
  \<^verbatim>\<open>msg_type\<close> and \<^verbatim>\<open>content\<close> only. The content is itself a dictionary from strings
  to values.
\<close>

datatype pyval = PyNone | PyBool bool | PyInt int | PyStr string | PyList "pyval list"

record message =
  msg_type :: string
  content :: "string \<rightharpoonup> pyval"

text \<open>On the wire a message is a multipart message: a list of byte strings.\<close>

type_synonym frames = "string list"

subsection \<open>The session\<close>

text \<open>
  The \<^verbatim>\<open>Session\<close> class is not part of this module. The module reads its attribute
  \<^verbatim>\<open>bsession\<close>, assigns its attribute \<^verbatim>\<open>adapt_version\<close> (\<open>None\<close> below: never
  assigned so far) and calls its methods \<^verbatim>\<open>feed_identities\<close> and \<^verbatim>\<open>deserialize\<close>,
  which are taken as they come: functions of the frames that return a value or raise.
\<close>

record session =
  bsession :: string
  adapt_version :: "int option"
  feed_identities :: "frames \<Rightarrow> error + frames \<times> frames"
  deserialize :: "frames \<Rightarrow> error + message"

subsection \<open>The ZMQ socket\<close>

text \<open>
  The socket is an object of the ZMQ binding. What the module does with it is: poll it
  for input, read one multipart message, close it. The model of the socket holds
  \<^item> \<open>sock_type\<close>, \<open>identity\<close>, \<open>endpoint\<close>: the socket type, the identity option
    and the address it is connected to, as its factory set them;
  \<^item> \<open>inbox\<close>: the messages that have arrived and are not read yet, oldest first;
  \<^item> \<open>later\<close>: the messages still on their way, each with the time in milliseconds
    between the previous event and its arrival;
  \<^item> \<open>polled\<close>: the timeouts given to the polls made so far, oldest first;
  \<^item> \<open>close_raises\<close>: the exception the socket's \<^verbatim>\<open>close\<close> raises, if it raises one.
\<close>

record zsocket =
  sock_type :: string
  identity :: string
  endpoint :: string
  inbox :: "frames list"
  later :: "(nat \<times> frames) list"
  polled :: "number option list"
  close_raises :: "error option"

text \<open>
  \<^verbatim>\<open>socket.poll(timeout)\<close>, timeout in milliseconds. The binding first turns the
  timeout into the wait it asks of the library: no timeout and a negative timeout are a
  wait without limit; of a float the whole milliseconds are taken, by \<^verbatim>\<open>int(timeout)\<close>,
  which raises for an infinity and for not-a-number.
\<close>

datatype wait = Forever | Millis nat

definition poll_wait :: "number option \<Rightarrow> error + wait" where
  "poll_wait timeout =
     (case timeout of
        None \<Rightarrow> Inr Forever
      | Some (IntNum i) \<Rightarrow> Inr (if i < 0 then Forever else Millis (nat i))
      | Some (FloatNum (Finite x)) \<Rightarrow> Inr (if x < 0 then Forever else Millis (nat \<lfloor>x\<rfloor>))
      | Some (FloatNum PosInf) \<Rightarrow> Inl (OverflowError ''cannot convert float infinity to integer'')
      | Some (FloatNum NegInf) \<Rightarrow> Inr Forever
      | Some (FloatNum NaN) \<Rightarrow> Inl (ValueError ''cannot convert float NaN to integer''))"

text \<open>
  The result of the poll is the event mask, 1 when a message can be read and 0 when the
  wait ran out. A message on its way arrives in time when its delay is less than the wait.
  With a wait without limit, nothing in the inbox and nothing on its way, the call never
  returns: the value \<open>None\<close>.
\<close>

definition zmq_poll :: "number option \<Rightarrow> zsocket \<Rightarrow> ((error + nat) \<times> zsocket) option" where
  "zmq_poll timeout s0 =
     (let s = s0\<lparr>polled := polled s0 @ [timeout]\<rparr> in
      case poll_wait timeout of
        Inl e \<Rightarrow> Some (Inl e, s)
      | Inr w \<Rightarrow>
          if inbox s \<noteq> [] then Some (Inr 1, s)
          else (case later s of
              [] \<Rightarrow> (case w of Forever \<Rightarrow> None | Millis T \<Rightarrow> Some (Inr 0, s))
            | (d, m) # rest \<Rightarrow>
                (case w of
                   Forever \<Rightarrow> Some (Inr 1, s\<lparr>inbox := [m], later := rest\<rparr>)
                 | Millis T \<Rightarrow>
                     if d < T then Some (Inr 1, s\<lparr>inbox := [m], later := rest\<rparr>)
                     else Some (Inr 0, s\<lparr>later := (d - T, m) # rest\<rparr>))))"

text \<open>
  \<^verbatim>\<open>socket.recv_multipart()\<close> takes the oldest message of the inbox; on an empty inbox
  it waits for the next message to arrive, without limit.
\<close>

definition zmq_recv_multipart :: "zsocket \<Rightarrow> (frames \<times> zsocket) option" where
  "zmq_recv_multipart s =
     (case inbox s of
        m # ms \<Rightarrow> Some (m, s\<lparr>inbox := ms\<rparr>)
      | [] \<Rightarrow> (case later s of
            [] \<Rightarrow> None
          | (d, m) # rest \<Rightarrow> Some (m, s\<lparr>later := rest\<rparr>)))"

text \<open>\<^verbatim>\<open>socket.close(linger)\<close> returns nothing, or raises.\<close>

definition zmq_close :: "int \<Rightarrow> zsocket \<Rightarrow> error + unit" where
  "zmq_close linger s = (case close_raises s of Some e \<Rightarrow> Inl e | None \<Rightarrow> Inr ())"

subsection \<open>What the module imports from the channel layer\<close>

text \<open>
  \<^verbatim>\<open>IPython.kernel.channels\<close> is not among the sources. The three socket factories and
  the constant \<^verbatim>\<open>major_protocol_version\<close> that the module imports from it are
  parameters of the model. A factory takes the context, the session's identity and the
  address, and returns a socket or raises.
\<close>

datatype zcontext = Context nat

record kernel_channels =
  make_iopub_socket :: "zcontext \<Rightarrow> string \<Rightarrow> string \<Rightarrow> error + zsocket"
  make_shell_socket :: "zcontext \<Rightarrow> string \<Rightarrow> string \<Rightarrow> error + zsocket"
  make_stdin_socket :: "zcontext \<Rightarrow> string \<Rightarrow> string \<Rightarrow> error + zsocket"
  major_protocol_version :: int

subsection \<open>Python's string operations used by the module\<close>

text \<open>\<^verbatim>\<open>"%i" % n\<close>: the decimal digits of an integer, with a minus sign when negative.\<close>

definition digit_char :: "nat \<Rightarrow> char" where
  "digit_char d = ''0123456789'' ! (d mod 10)"

fun dec_digits :: "nat \<Rightarrow> string" where
  "dec_digits n =
     (if n < 10 then [digit_char n] else dec_digits (n div 10) @ [digit_char (n mod 10)])"

declare dec_digits.simps [simp del]

definition format_i :: "int \<Rightarrow> string" where
  "format_i i = (if i < 0 then CHR ''-'' # dec_digits (nat (- i)) else dec_digits (nat i))"

text \<open>\<^verbatim>\<open>s.split(sep)\<close> for a one-character separator: never an empty list.\<close>

fun py_split :: "char \<Rightarrow> string \<Rightarrow> string list" where
  "py_split sep [] = [[]]"
| "py_split sep (c # cs) =
     (if c = sep then [] # py_split sep cs
      else (case py_split sep cs of
              [] \<Rightarrow> [[c]]
            | w # ws \<Rightarrow> (c # w) # ws))"

text \<open>
  \<^verbatim>\<open>int(s)\<close> on a string. White space around the literal is dropped: the ASCII
  characters tab, line feed, vertical tab, form feed, carriage return and space, and the
  spaces beyond ASCII, of which the first 256 code points have two (next line, no-break
  space). One sign is allowed. What is left must be decimal digits, at least one, with
  single underscores between digits where the interpreter accepts them, and no more digits
  than its limit. Anything else raises \<^verbatim>\<open>ValueError\<close>. Strings are over the first 256
  code points, which have no decimal digits but the ASCII ones.
\<close>

definition is_space :: "char \<Rightarrow> bool" where
  "is_space c = (c \<in> set [CHR 0x09, CHR 0x0A, CHR 0x0B, CHR 0x0C, CHR 0x0D, CHR 0x20,
                          CHR 0x85, CHR 0xA0])"

definition py_strip :: "string \<Rightarrow> string" where
  "py_strip s = rev (dropWhile is_space (rev (dropWhile is_space s)))"

definition is_digit :: "char \<Rightarrow> bool" where
  "is_digit c = (c \<in> set ''0123456789'')"

definition digit_val :: "char \<Rightarrow> int" where
  "digit_val c = of_char c - 48"

definition digits_val :: "string \<Rightarrow> int" where
  "digits_val ds = foldl (\<lambda>a c. 10 * a + digit_val c) 0 ds"

fun single_underscores :: "string \<Rightarrow> bool" where
  "single_underscores (a # b # cs) =
     (\<not> (a = CHR ''_'' \<and> b = CHR ''_'') \<and> single_underscores (b # cs))"
| "single_underscores cs = True"

definition valid_literal :: "interpreter \<Rightarrow> string \<Rightarrow> bool" where
  "valid_literal P ds =
     (case ds of
        [] \<Rightarrow> False
      | c # r \<Rightarrow>
          is_digit c \<and> is_digit (last ds)
          \<and> list_all (\<lambda>c. is_digit c \<or> (int_underscores P \<and> c = CHR ''_'')) ds
          \<and> single_underscores ds)"

definition within_digit_limit :: "interpreter \<Rightarrow> string \<Rightarrow> bool" where
  "within_digit_limit P ds =
     (let n = length (filter is_digit ds)
      in \<not> (640 < n \<and> 0 < int_max_str_digits P \<and> int_max_str_digits P < n))"

definition py_int :: "interpreter \<Rightarrow> string \<Rightarrow> error + int" where
  "py_int P s =
     (let t = py_strip s;
          neg = (case t of [] \<Rightarrow> False | c # r \<Rightarrow> c = CHR ''-'');
          ds = (case t of [] \<Rightarrow> [] | c # r \<Rightarrow> if c = CHR ''-'' \<or> c = CHR ''+'' then r else t)
      in if \<not> valid_literal P ds
         then Inl (ValueError ''invalid literal for int() with base 10'')
         else if \<not> within_digit_limit P ds
         then Inl (ValueError ''Exceeds the limit for integer string conversion'')
         else Inr (if neg then - digits_val (filter is_digit ds)
                   else digits_val (filter is_digit ds)))"

text \<open>
  \<^verbatim>\<open>timeout *= 1000\<close>: exact for an \<^verbatim>\<open>int\<close>; for a float the product is rounded
  to a float, and infinities and not-a-number stay what they are.
\<close>

definition times_1000 :: "interpreter \<Rightarrow> number \<Rightarrow> number" where
  "times_1000 P t =
     (case t of
        IntNum i \<Rightarrow> IntNum (i * 1000)
      | FloatNum (Finite x) \<Rightarrow> FloatNum (float_round P (x * 1000))
      | FloatNum PosInf \<Rightarrow> FloatNum PosInf
      | FloatNum NegInf \<Rightarrow> FloatNum NegInf
      | FloatNum NaN \<Rightarrow> FloatNum NaN)"

subsection \<open>ZMQSocketChannel\<close>

text \<open>
  The state of a channel object: the attributes the methods read and write, and the class
  it was created as, which decides what \<^verbatim>\<open>self._recv\<close> and \<^verbatim>\<open>self.start\<close> are.
  \<open>socket\<close> is \<open>None\<close> from construction to \<^verbatim>\<open>start\<close> and again after
  \<^verbatim>\<open>close\<close>. \<open>priv_address\<close> is the attribute \<^verbatim>\<open>_address\<close>.
\<close>

datatype channel_class =
  ZMQSocketChannel | BlockingShellChannel | BlockingIOPubChannel | BlockingStdInChannel

record channel =
  cls :: channel_class
  daemon :: bool
  ch_context :: zcontext
  session :: session
  socket :: "zsocket option"
  priv_address :: string

text \<open>
  The constructor's address is a tuple \<open>(ip, port)\<close> or a url string.
  \<^verbatim>\<open>
    if isinstance(address, tuple):
        if address[1] == 0:
            message = 'The port number for a channel cannot be 0.'
            raise InvalidPortNumber(message)
        address = "tcp://%s:%i" % address
    self._address = address
  \<close>
  The result is the exception or the new channel: when the constructor raises, the caller
  holds no channel.
\<close>

datatype address_arg = AddrTuple string int | AddrUrl string

definition ZMQSocketChannel_init ::
  "channel_class \<Rightarrow> zcontext \<Rightarrow> session \<Rightarrow> address_arg \<Rightarrow> error + channel" where
  "ZMQSocketChannel_init c ctx sess addr =
     (case addr of
        AddrTuple host port \<Rightarrow>
          if port = 0
          then Inl (InvalidPortNumber ''The port number for a channel cannot be 0.'')
          else Inr \<lparr>cls = c, daemon = True, ch_context = ctx, session = sess,
                    socket = None, priv_address = ''tcp://'' @ host @ '':'' @ format_i port\<rparr>
      | AddrUrl url \<Rightarrow>
          Inr \<lparr>cls = c, daemon = True, ch_context = ctx, session = sess,
               socket = None, priv_address = url\<rparr>)"

text \<open>The property \<^verbatim>\<open>address\<close> returns \<^verbatim>\<open>self._address\<close>.\<close>

definition address :: "channel \<Rightarrow> string" where
  "address ch = priv_address ch"

text \<open>
  \<^verbatim>\<open>_recv\<close> of the base class: read one multipart message, split the routing identities
  off, deserialize the rest. (The keyword arguments are passed on to
  \<^verbatim>\<open>recv_multipart\<close>; \<^verbatim>\<open>get_msg\<close>, the only caller, passes none.) Before
  \<^verbatim>\<open>start\<close> and after \<^verbatim>\<open>close\<close> the socket is \<^verbatim>\<open>None\<close>, and the attribute
  access raises. The value \<open>None\<close> of the result is a call that never returns.
\<close>

definition ZMQSocketChannel_recv :: "channel \<Rightarrow> ((error + message) \<times> channel) option" where
  "ZMQSocketChannel_recv ch =
     (case socket ch of
        None \<Rightarrow> Some (Inl (AttributeError ''recv_multipart''), ch)
      | Some s \<Rightarrow>
          (case zmq_recv_multipart s of
             None \<Rightarrow> None
           | Some (msg, s') \<Rightarrow>
               (let ch' = ch\<lparr>socket := Some s'\<rparr> in
                case feed_identities (session ch') msg of
                  Inl e \<Rightarrow> Some (Inl e, ch')
                | Inr (ident, smsg) \<Rightarrow>
                    (case deserialize (session ch') smsg of
                       Inl e \<Rightarrow> Some (Inl e, ch')
                     | Inr m \<Rightarrow> Some (Inr m, ch')))))"

subsection \<open>BlockingShellChannel\<close>

text \<open>
  \<^verbatim>\<open>
    def start(self):
        self.socket = make_stdin_socket(self.context, self.session.bsession, self.address)
  \<close>
\<close>

definition BlockingShellChannel_start ::
  "kernel_channels \<Rightarrow> channel \<Rightarrow> (error + unit) \<times> channel" where
  "BlockingShellChannel_start K ch =
     (case make_stdin_socket K (ch_context ch) (bsession (session ch)) (address ch) of
        Inl e \<Rightarrow> (Inl e, ch)
      | Inr s \<Rightarrow> (Inr (), ch\<lparr>socket := Some s\<rparr>))"

text \<open>
  \<^verbatim>\<open>
    adapt_version = int(msg['content']['protocol_version'].split('.')[0])
    if adapt_version != major_protocol_version:
        self.session.adapt_version = adapt_version
  \<close>
  A missing key raises \<^verbatim>\<open>KeyError\<close>; a value that is not a string has no
  \<^verbatim>\<open>split\<close>; a first component that is not an integer literal raises
  \<^verbatim>\<open>ValueError\<close>.
\<close>

definition handle_kernel_info_reply ::
  "interpreter \<Rightarrow> kernel_channels \<Rightarrow> message \<Rightarrow> channel \<Rightarrow> (error + unit) \<times> channel" where
  "handle_kernel_info_reply P K msg ch =
     (case content msg ''protocol_version'' of
        None \<Rightarrow> (Inl (KeyError ''protocol_version''), ch)
      | Some (PyStr v) \<Rightarrow>
          (case py_split (CHR ''.'') v of
             [] \<Rightarrow> (Inl IndexError, ch)
           | p # ps \<Rightarrow>
               (case py_int P p of
                  Inl e \<Rightarrow> (Inl e, ch)
                | Inr adapt \<Rightarrow>
                    if adapt \<noteq> major_protocol_version K
                    then (Inr (), ch\<lparr>session := (session ch)\<lparr>adapt_version := Some adapt\<rparr>\<rparr>)
                    else (Inr (), ch)))
      | Some other \<Rightarrow> (Inl (AttributeError ''split''), ch))"

text \<open>
  \<^verbatim>\<open>
    msg = ZMQSocketChannel._recv(self, **kwargs)
    if msg['msg_type'] == 'kernel_info_reply':
        self._handle_kernel_info_reply(msg)
    return msg
  \<close>
\<close>

definition BlockingShellChannel_recv ::
  "interpreter \<Rightarrow> kernel_channels \<Rightarrow> channel \<Rightarrow> ((error + message) \<times> channel) option" where
  "BlockingShellChannel_recv P K ch =
     (case ZMQSocketChannel_recv ch of
        None \<Rightarrow> None
      | Some (Inl e, ch') \<Rightarrow> Some (Inl e, ch')
      | Some (Inr msg, ch') \<Rightarrow>
          if msg_type msg = ''kernel_info_reply''
          then (case handle_kernel_info_reply P K msg ch' of
                  (Inl e, ch'') \<Rightarrow> Some (Inl e, ch'')
                | (Inr u, ch'') \<Rightarrow> Some (Inr msg, ch''))
          else Some (Inr msg, ch'))"

subsection \<open>BlockingIOPubChannel and BlockingStdInChannel\<close>

definition BlockingIOPubChannel_start ::
  "kernel_channels \<Rightarrow> channel \<Rightarrow> (error + unit) \<times> channel" where
  "BlockingIOPubChannel_start K ch =
     (case make_iopub_socket K (ch_context ch) (bsession (session ch)) (address ch) of
        Inl e \<Rightarrow> (Inl e, ch)
      | Inr s \<Rightarrow> (Inr (), ch\<lparr>socket := Some s\<rparr>))"

definition BlockingStdInChannel_start ::
  "kernel_channels \<Rightarrow> channel \<Rightarrow> (error + unit) \<times> channel" where
  "BlockingStdInChannel_start K ch =
     (case make_stdin_socket K (ch_context ch) (bsession (session ch)) (address ch) of
        Inl e \<Rightarrow> (Inl e, ch)
      | Inr s \<Rightarrow> (Inr (), ch\<lparr>socket := Some s\<rparr>))"

subsection \<open>Method lookup\<close>

text \<open>
  \<^verbatim>\<open>self.start()\<close> and \<^verbatim>\<open>self._recv()\<close> are looked up in the object's class. The base
  class defines no \<^verbatim>\<open>start\<close>; only the shell channel overrides \<^verbatim>\<open>_recv\<close>.
\<close>

definition start :: "kernel_channels \<Rightarrow> channel \<Rightarrow> (error + unit) \<times> channel" where
  "start K ch =
     (case cls ch of
        ZMQSocketChannel \<Rightarrow> (Inl (AttributeError ''start''), ch)
      | BlockingShellChannel \<Rightarrow> BlockingShellChannel_start K ch
      | BlockingIOPubChannel \<Rightarrow> BlockingIOPubChannel_start K ch
      | BlockingStdInChannel \<Rightarrow> BlockingStdInChannel_start K ch)"

definition recv :: "interpreter \<Rightarrow> kernel_channels \<Rightarrow> channel \<Rightarrow> ((error + message) \<times> channel) option" where
  "recv P K ch =
     (case cls ch of
        BlockingShellChannel \<Rightarrow> BlockingShellChannel_recv P K ch
      | other \<Rightarrow> ZMQSocketChannel_recv ch)"

subsection \<open>Reading messages\<close>

text \<open>
  \<^verbatim>\<open>
    def get_msg(self, block=True, timeout=None):
        if block:
            if timeout is not None:
                timeout *= 1000  # seconds to ms
            ready = self.socket.poll(timeout)
        else:
            ready = self.socket.poll(timeout=0)
        if ready:
            return self._recv()
        else:
            raise Empty
  \<close>
  The timeout is a number of seconds, or \<^verbatim>\<open>None\<close>. An exception of the poll
  leaves the method.
\<close>

definition poll_timeout :: "interpreter \<Rightarrow> bool \<Rightarrow> number option \<Rightarrow> number option" where
  "poll_timeout P block timeout =
     (if block then (case timeout of None \<Rightarrow> None | Some t \<Rightarrow> Some (times_1000 P t))
      else Some (IntNum 0))"

definition get_msg ::
  "interpreter \<Rightarrow> kernel_channels \<Rightarrow> bool \<Rightarrow> number option \<Rightarrow> channel \<Rightarrow>
     ((error + message) \<times> channel) option" where
  "get_msg P K block timeout ch =
     (case socket ch of
        None \<Rightarrow> Some (Inl (AttributeError ''poll''), ch)
      | Some s \<Rightarrow>
          (case zmq_poll (poll_timeout P block timeout) s of
             None \<Rightarrow> None
           | Some (Inl e, s') \<Rightarrow> Some (Inl e, ch\<lparr>socket := Some s'\<rparr>)
           | Some (Inr ready, s') \<Rightarrow>
               if ready \<noteq> 0 then recv P K (ch\<lparr>socket := Some s'\<rparr>)
               else Some (Inl Empty, ch\<lparr>socket := Some s'\<rparr>)))"

text \<open>\<^verbatim>\<open>msg_ready\<close>: \<^verbatim>\<open>bool(self.socket.poll(timeout=0))\<close>.\<close>

definition msg_ready :: "channel \<Rightarrow> ((error + bool) \<times> channel) option" where
  "msg_ready ch =
     (case socket ch of
        None \<Rightarrow> Some (Inl (AttributeError ''poll''), ch)
      | Some s \<Rightarrow>
          (case zmq_poll (Some (IntNum 0)) s of
             None \<Rightarrow> None
           | Some (Inl e, s') \<Rightarrow> Some (Inl e, ch\<lparr>socket := Some s'\<rparr>)
           | Some (Inr ready, s') \<Rightarrow> Some (Inr (ready \<noteq> 0), ch\<lparr>socket := Some s'\<rparr>)))"

text \<open>
  \<^verbatim>\<open>
    def close(self):
        if self.socket is not None:
            try:
                self.socket.close(linger=0)
            except Exception:
                pass
            self.socket = None
  \<close>
\<close>

definition close :: "channel \<Rightarrow> (error + unit) \<times> channel" where
  "close ch =
     (case socket ch of
        None \<Rightarrow> (Inr (), ch)
      | Some s \<Rightarrow>
          (case zmq_close 0 s of
             Inl e \<Rightarrow> (Inr (), ch\<lparr>socket := None\<rparr>)
           | Inr u \<Rightarrow> (Inr (), ch\<lparr>socket := None\<rparr>)))"

text \<open>\<^verbatim>\<open>stop = close\<close>: a second name of the same method.\<close>

definition stop :: "channel \<Rightarrow> (error + unit) \<times> channel" where
  "stop = close"

definition is_alive :: "channel \<Rightarrow> bool" where
  "is_alive ch = (socket ch \<noteq> None)"


lemma zmq_poll_zero:
  "zmq_poll (Some (IntNum 0)) s =
     Some (Inr (if inbox s = [] then 0 else 1), s\<lparr>polled := polled s @ [Some (IntNum 0)]\<rparr>)"
  by (auto simp: zmq_poll_def poll_wait_def Let_def split: list.splits)








subsection \<open>BlockingHBChannel\<close>

text \<open>
  \<^verbatim>\<open>
    class BlockingHBChannel(HBChannel):
        time_to_dead = 1.
        def call_handlers(self, since_last_heartbeat):
            pass
  \<close>
  The base class \<^verbatim>\<open>HBChannel\<close> is not among the sources; the state of the object is
  whatever that class keeps, a type parameter here. The method returns Python's
  \<^verbatim>\<open>None\<close>, the unit value.
\<close>

definition BlockingHBChannel_time_to_dead :: real where
  "BlockingHBChannel_time_to_dead = 1"

definition BlockingHBChannel_call_handlers :: "'hb \<Rightarrow> real \<Rightarrow> unit \<times> 'hb" where
  "BlockingHBChannel_call_handlers self since_last_heartbeat = ((), self)"

subsection \<open>Notions used in the statements\<close>

text \<open>
  What the session makes of one multipart message: the two steps of the base class's
  \<^verbatim>\<open>_recv\<close> after the read.
\<close>

definition decode :: "session \<Rightarrow> frames \<Rightarrow> error + message" where
  "decode sess fr =
     (case feed_identities sess fr of
        Inl e \<Rightarrow> Inl e
      | Inr (ident, smsg) \<Rightarrow> deserialize sess smsg)"



text \<open>The channel with the poll log of its socket, if it has one, replaced.\<close>

definition with_polled :: "number option list \<Rightarrow> channel \<Rightarrow> channel" where
  "with_polled p ch = ch\<lparr>socket := map_option (\<lambda>s. s\<lparr>polled := p\<rparr>) (socket ch)\<rparr>"

subsection \<open>Example objects\<close>

text \<open>
  A session that splits the identities off at the delimiter frame and reads a message
  from one or two frames (its type and, if present, its protocol version); an
  interpreter with underscores in literals, the default digit limit and a rounding that is
  exact below the overflow threshold (the examples' products are floats); a channel
  layer with protocol version 5 whose factories make sockets of different types; a
  status message and a reply that lacks its version; a connected socket with given
  messages; a channel on port 5555.
\<close>

definition ex_session :: session where
  "ex_session =
     \<lparr>bsession = ''client-1'', adapt_version = None,
      feed_identities = (\<lambda>fs. case dropWhile (\<lambda>f. f \<noteq> ''<IDS|MSG>'') fs of
          [] \<Rightarrow> Inl (ValueError ''DELIM not in msg_list'')
        | d # rest \<Rightarrow> Inr (takeWhile (\<lambda>f. f \<noteq> ''<IDS|MSG>'') fs, rest)),
      deserialize = (\<lambda>fs. case fs of
          [t, v] \<Rightarrow> Inr \<lparr>msg_type = t, content = [''protocol_version'' \<mapsto> PyStr v]\<rparr>
        | [t] \<Rightarrow> Inr \<lparr>msg_type = t, content = Map.empty\<rparr>
        | other \<Rightarrow> Inl (ValueError ''malformed message''))\<rparr>"

definition ex_interpreter :: interpreter where
  "ex_interpreter =
     \<lparr>int_underscores = True, int_max_str_digits = 4300,
      float_round = (\<lambda>x. if 2 ^ 1024 \<le> x then PosInf
                           else if x \<le> - (2 ^ 1024) then NegInf else Finite x)\<rparr>"

definition ex_kernel_channels :: kernel_channels where
  "ex_kernel_channels =
     \<lparr>make_iopub_socket = (\<lambda>ctx i a. Inr \<lparr>sock_type = ''SUB'', identity = i, endpoint = a,
         inbox = [], later = [], polled = [], close_raises = None\<rparr>),
      make_shell_socket = (\<lambda>ctx i a. Inr \<lparr>sock_type = ''DEALER'', identity = i, endpoint = a,
         inbox = [], later = [], polled = [], close_raises = None\<rparr>),
      make_stdin_socket = (\<lambda>ctx i a. Inr \<lparr>sock_type = ''REQ'', identity = i, endpoint = a,
         inbox = [], later = [], polled = [], close_raises = None\<rparr>),
      major_protocol_version = 5\<rparr>"



definition ex_socket :: "frames list \<Rightarrow> (nat \<times> frames) list \<Rightarrow> number option list \<Rightarrow> zsocket" where
  "ex_socket ready coming polls =
     \<lparr>sock_type = ''DEALER'', identity = ''client-1'', endpoint = ''tcp://127.0.0.1:5555'',
      inbox = ready, later = coming, polled = polls, close_raises = None\<rparr>"

definition ex_channel :: "channel_class \<Rightarrow> zsocket option \<Rightarrow> channel" where
  "ex_channel c so =
     \<lparr>cls = c, daemon = True, ch_context = Context 0, session = ex_session, socket = so,
      priv_address = ''tcp://127.0.0.1:5555''\<rparr>"

lemmas ex_defs = ex_session_def ex_kernel_channels_def ex_socket_def ex_channel_def

lemmas py_int_defs =
  py_int_def py_strip_def is_space_def is_digit_def digits_val_def digit_val_def
  valid_literal_def within_digit_limit_def

section \<open>Properties of the receive path\<close>

lemma py_split_first: "\<exists>ws. py_split sep s = takeWhile (\<lambda>c. c \<noteq> sep) s # ws"
  by (induction s) auto


lemma ZMQSocketChannel_recv_inbox:
  assumes "socket ch = Some s" "inbox s = fr # rest"
  shows "ZMQSocketChannel_recv ch =
    Some (decode (session ch) fr, ch\<lparr>socket := Some (s\<lparr>inbox := rest\<rparr>)\<rparr>)"
  using assms
  by (simp add: ZMQSocketChannel_recv_def zmq_recv_multipart_def decode_def Let_def
      split: sum.splits prod.splits)

lemma handle_kernel_info_reply_version:
  assumes "content msg ''protocol_version'' = Some (PyStr v)"
    "py_int P (takeWhile (\<lambda>c. c \<noteq> CHR ''.'') v) = Inr n"
  shows "handle_kernel_info_reply P K msg ch =
    (Inr (), ch\<lparr>session := (if n \<noteq> major_protocol_version K
                              then (session ch)\<lparr>adapt_version := Some n\<rparr> else session ch)\<rparr>)"
proof -
  obtain ws where "py_split (CHR ''.'') v = takeWhile (\<lambda>c. c \<noteq> CHR ''.'') v # ws"
    using py_split_first by blast
  with assms show ?thesis
    by (simp add: handle_kernel_info_reply_def)
qed






lemma zmq_poll_with_polled:
  "zmq_poll t (s\<lparr>polled := p\<rparr>) =
     map_option (\<lambda>(n, s'). (n, s'\<lparr>polled := p @ [t]\<rparr>)) (zmq_poll t s)"
  by (simp add: zmq_poll_def Let_def split: list.splits prod.splits sum.splits wait.splits)

lemma ZMQSocketChannel_recv_with_polled:
  "ZMQSocketChannel_recv (with_polled p ch) =
     map_option (\<lambda>(r, c). (r, with_polled p c)) (ZMQSocketChannel_recv ch)"
  by (simp add: ZMQSocketChannel_recv_def zmq_recv_multipart_def with_polled_def Let_def
      split: option.splits list.splits prod.splits sum.splits)

lemma handle_kernel_info_reply_with_polled:
  "handle_kernel_info_reply P K m (with_polled p ch) =
     (case handle_kernel_info_reply P K m ch of (r, c) \<Rightarrow> (r, with_polled p c))"
  by (simp add: handle_kernel_info_reply_def with_polled_def
      split: option.splits pyval.splits list.splits sum.splits)

lemma recv_with_polled:
  "recv P K (with_polled p ch) = map_option (\<lambda>(r, c). (r, with_polled p c)) (recv P K ch)"
proof -
  have c: "cls (with_polled p ch) = cls ch" by (simp add: with_polled_def)
  show ?thesis
    unfolding recv_def BlockingShellChannel_recv_def c ZMQSocketChannel_recv_with_polled
    by (auto simp: handle_kernel_info_reply_with_polled
        split: channel_class.splits option.splits sum.splits prod.splits)
qed

lemma get_msg_with_polled:
  "get_msg P K block timeout (with_polled p ch) =
     map_option (\<lambda>(r, c). (r, with_polled (p @ [poll_timeout P block timeout]) c))
       (get_msg P K block timeout ch)"
proof (cases "socket ch")
  case None
  then show ?thesis by (simp add: get_msg_def with_polled_def)
next
  case (Some s)
  have a: "socket (with_polled p ch) = Some (s\<lparr>polled := p\<rparr>)"
    using Some by (simp add: with_polled_def)
  have b: "\<And>s'. (with_polled p ch)\<lparr>socket := Some s'\<rparr> = ch\<lparr>socket := Some s'\<rparr>"
    by (simp add: with_polled_def)
  have w: "\<And>s' q. ch\<lparr>socket := Some (s'\<lparr>polled := q\<rparr>)\<rparr> = with_polled q (ch\<lparr>socket := Some s'\<rparr>)"
    by (simp add: with_polled_def)
  show ?thesis
  proof (cases "zmq_poll (poll_timeout P block timeout) s")
    case None
    then show ?thesis
      by (simp add: get_msg_def a Some zmq_poll_with_polled)
  next
    case (Some r)
    obtain n s' where r: "r = (n, s')" by (cases r)
    show ?thesis
      unfolding get_msg_def a \<open>socket ch = Some s\<close>
      by (cases n) (simp_all add: zmq_poll_with_polled Some r b w recv_with_polled)
  qed
qed











section \<open>Construction\<close>

text \<open>
  A tuple with a port other than 0 gives a channel with no socket yet, whose address is the
  url of the host and port.
\<close>

lemma init_tuple_address:
  "port \<noteq> 0 \<Longrightarrow>
     \<exists>ch. ZMQSocketChannel_init c ctx sess (AddrTuple host port) = Inr ch
        \<and> address ch = ''tcp://'' @ host @ '':'' @ format_i port \<and> socket ch = None"
  by (simp add: ZMQSocketChannel_init_def address_def)

lemma init_example:
  "ZMQSocketChannel_init c (Context 0) ex_session (AddrTuple ''127.0.0.1'' 5555) =
     Inr (ex_channel c None)"
  by (simp add: ZMQSocketChannel_init_def ex_channel_def format_i_def dec_digits.simps
      digit_char_def)

text \<open>
  C3. Whatever the host (and the class, context and session), constructing a channel from
  a tuple whose port is 0 raises InvalidPortNumber: the result is the exception, and no
  channel comes out of the call.
\<close>

theorem init_port_zero_raises:
  "ZMQSocketChannel_init c ctx sess (AddrTuple host 0) =
     Inl (InvalidPortNumber ''The port number for a channel cannot be 0.'')"
  by (simp add: ZMQSocketChannel_init_def)

text \<open>
  C10. The port check is made on tuples only. Constructing a channel from a url string
  never raises: it yields a channel whose \<^verbatim>\<open>address\<close> is that very string, also
  when the url's port is 0.
\<close>

theorem init_url_kept_verbatim:
  "(\<exists>ch. ZMQSocketChannel_init c ctx sess (AddrUrl url) = Inr ch \<and> address ch = url \<and> socket ch = None)
   \<and> (\<exists>ch. ZMQSocketChannel_init c ctx sess (AddrUrl ''tcp://host:0'') = Inr ch
            \<and> address ch = ''tcp://host:0'')"
  by (simp add: ZMQSocketChannel_init_def address_def)

section \<open>Starting the shell channel\<close>

text \<open>
  C1. The claim is that the shell channel's \<^verbatim>\<open>start\<close> binds the socket made by the
  shell-socket factory. The method calls the stdin-socket factory. Under the example
  channel layer, starting the example shell channel stores the socket of the stdin
  factory (type REQ), which is not the socket the shell factory makes from the same
  context, identity and address (type DEALER).
\<close>

theorem shell_start_binds_stdin_socket:
  "BlockingShellChannel_start ex_kernel_channels (ex_channel BlockingShellChannel None) =
     (Inr (), ex_channel BlockingShellChannel
        (Some \<lparr>sock_type = ''REQ'', identity = ''client-1'', endpoint = ''tcp://127.0.0.1:5555'',
               inbox = [], later = [], polled = [], close_raises = None\<rparr>))
   \<and> make_shell_socket ex_kernel_channels (Context 0) ''client-1'' ''tcp://127.0.0.1:5555'' =
       Inr \<lparr>sock_type = ''DEALER'', identity = ''client-1'', endpoint = ''tcp://127.0.0.1:5555'',
            inbox = [], later = [], polled = [], close_raises = None\<rparr>"
  by (simp add: BlockingShellChannel_start_def ex_kernel_channels_def ex_channel_def
      ex_session_def address_def)

section \<open>Protocol adaptation on the shell channel\<close>

text \<open>
  C2. On a shell channel, let the oldest message of the inbox decode to a
  \<^verbatim>\<open>kernel_info_reply\<close> whose \<^verbatim>\<open>protocol_version\<close> is a string with the integer
  \<open>n\<close> before its first dot. Then \<^verbatim>\<open>_recv\<close> returns that message, and the
  session's \<^verbatim>\<open>adapt_version\<close> is set to \<open>n\<close> when \<open>n\<close> differs from the
  channel layer's \<^verbatim>\<open>major_protocol_version\<close>; when they are equal the session is as it
  was. Nothing else of the channel changes but the inbox, which loses the message.
\<close>

theorem shell_recv_adapts_version:
  assumes "cls ch = BlockingShellChannel" "socket ch = Some s" "inbox s = fr # rest"
    "decode (session ch) fr = Inr msg"
    "msg_type msg = ''kernel_info_reply''"
    "content msg ''protocol_version'' = Some (PyStr v)"
    "py_int P (takeWhile (\<lambda>c. c \<noteq> CHR ''.'') v) = Inr n"
  shows "recv P K ch =
      Some (Inr msg,
            ch\<lparr>socket := Some (s\<lparr>inbox := rest\<rparr>),
               session := (if n \<noteq> major_protocol_version K
                           then (session ch)\<lparr>adapt_version := Some n\<rparr>
                           else session ch)\<rparr>)"
  using assms
    handle_kernel_info_reply_version[OF assms(6,7), where K = K and ch = "ch\<lparr>socket := Some (s\<lparr>inbox := rest\<rparr>)\<rparr>"]
  by (simp add: recv_def BlockingShellChannel_recv_def ZMQSocketChannel_recv_inbox)

text \<open>
  With major version 5: a reply with version "4.1" sets the adapt version to 4, a reply
  with version "5.0" leaves the session alone; both replies are returned.
\<close>

theorem shell_recv_adapts_version_witness:
  "recv ex_interpreter ex_kernel_channels
     (ex_channel BlockingShellChannel
        (Some (ex_socket [[''<IDS|MSG>'', ''kernel_info_reply'', ''4.1'']] [] []))) =
   Some (Inr \<lparr>msg_type = ''kernel_info_reply'',
              content = [''protocol_version'' \<mapsto> PyStr ''4.1'']\<rparr>,
         (ex_channel BlockingShellChannel (Some (ex_socket [] [] [])))
           \<lparr>session := ex_session\<lparr>adapt_version := Some 4\<rparr>\<rparr>)
   \<and> recv ex_interpreter ex_kernel_channels
     (ex_channel BlockingShellChannel
        (Some (ex_socket [[''<IDS|MSG>'', ''kernel_info_reply'', ''5.0'']] [] []))) =
   Some (Inr \<lparr>msg_type = ''kernel_info_reply'',
              content = [''protocol_version'' \<mapsto> PyStr ''5.0'']\<rparr>,
         ex_channel BlockingShellChannel (Some (ex_socket [] [] [])))"
  using shell_recv_adapts_version[where
      ch = "ex_channel BlockingShellChannel
         (Some (ex_socket [[''<IDS|MSG>'', ''kernel_info_reply'', ''4.1'']] [] []))"
      and s = "ex_socket [[''<IDS|MSG>'', ''kernel_info_reply'', ''4.1'']] [] []"
      and fr = "[''<IDS|MSG>'', ''kernel_info_reply'', ''4.1'']" and rest = "[]"
      and msg = "\<lparr>msg_type = ''kernel_info_reply'',
                  content = [''protocol_version'' \<mapsto> PyStr ''4.1'']\<rparr>"
      and v = "''4.1''" and n = 4 and P = ex_interpreter and K = ex_kernel_channels]
    shell_recv_adapts_version[where
      ch = "ex_channel BlockingShellChannel
         (Some (ex_socket [[''<IDS|MSG>'', ''kernel_info_reply'', ''5.0'']] [] []))"
      and s = "ex_socket [[''<IDS|MSG>'', ''kernel_info_reply'', ''5.0'']] [] []"
      and fr = "[''<IDS|MSG>'', ''kernel_info_reply'', ''5.0'']" and rest = "[]"
      and msg = "\<lparr>msg_type = ''kernel_info_reply'',
                  content = [''protocol_version'' \<mapsto> PyStr ''5.0'']\<rparr>"
      and v = "''5.0''" and n = 5 and P = ex_interpreter and K = ex_kernel_channels]
  by (simp add: ex_defs ex_interpreter_def decode_def py_int_defs)

section \<open>Reading one message\<close>




section \<open>Waiting for a message\<close>











section \<open>Asking for readiness\<close>

text \<open>
  C8. On a started channel, \<^verbatim>\<open>msg_ready\<close> makes one poll with timeout 0 and returns
  true exactly when that poll reports a message, which is when the inbox is not empty. The
  poll leaves the socket as it was but for its log. A \<^verbatim>\<open>get_msg\<close> after it gives what it
  would have given without it, result and channel, again up to the log of polls.
\<close>

theorem msg_ready_reports_without_consuming:
  assumes "socket ch = Some s"
  shows "(\<exists>n s'. zmq_poll (Some (IntNum 0)) s = Some (Inr n, s')
            \<and> msg_ready ch = Some (Inr (n \<noteq> 0), ch\<lparr>socket := Some s'\<rparr>)
            \<and> (n \<noteq> 0) = (inbox s \<noteq> [])
            \<and> s' = s\<lparr>polled := polled s @ [Some (IntNum 0)]\<rparr>)
     \<and> get_msg P K block timeout (ch\<lparr>socket := Some (s\<lparr>polled := polled s @ [Some (IntNum 0)]\<rparr>)\<rparr>) =
         map_option
           (\<lambda>(r, c). (r, with_polled (polled s @ [Some (IntNum 0), poll_timeout P block timeout]) c))
           (get_msg P K block timeout ch)"
proof -
  have "ch\<lparr>socket := Some (s\<lparr>polled := polled s @ [Some (IntNum 0)]\<rparr>)\<rparr> =
      with_polled (polled s @ [Some (IntNum 0)]) ch"
    using assms by (simp add: with_polled_def)
  then have "get_msg P K block timeout (ch\<lparr>socket := Some (s\<lparr>polled := polled s @ [Some (IntNum 0)]\<rparr>)\<rparr>) =
         map_option
           (\<lambda>(r, c). (r, with_polled (polled s @ [Some (IntNum 0), poll_timeout P block timeout]) c))
           (get_msg P K block timeout ch)"
    by (simp add: get_msg_with_polled)
  moreover have "msg_ready ch =
      Some (Inr (inbox s \<noteq> []), ch\<lparr>socket := Some (s\<lparr>polled := polled s @ [Some (IntNum 0)]\<rparr>)\<rparr>)"
    using assms by (simp add: msg_ready_def zmq_poll_zero)
  ultimately show ?thesis
    by (simp add: zmq_poll_zero)
qed

theorem msg_ready_reports_without_consuming_witness:
  "msg_ready (ex_channel BlockingStdInChannel
       (Some (ex_socket [[''<IDS|MSG>'', ''input_request'']] [] []))) =
     Some (Inr True, ex_channel BlockingStdInChannel
       (Some (ex_socket [[''<IDS|MSG>'', ''input_request'']] [] [Some (IntNum 0)])))
   \<and> msg_ready (ex_channel BlockingStdInChannel (Some (ex_socket [] [] []))) =
     Some (Inr False, ex_channel BlockingStdInChannel (Some (ex_socket [] [] [Some (IntNum 0)])))
   \<and> get_msg ex_interpreter ex_kernel_channels False None (ex_channel BlockingStdInChannel
       (Some (ex_socket [[''<IDS|MSG>'', ''input_request'']] [] [Some (IntNum 0)]))) =
     Some (Inr \<lparr>msg_type = ''input_request'', content = Map.empty\<rparr>,
       ex_channel BlockingStdInChannel (Some (ex_socket [] [] [Some (IntNum 0), Some (IntNum 0)])))"
  using msg_ready_reports_without_consuming[where
      ch = "ex_channel BlockingStdInChannel
              (Some (ex_socket [[''<IDS|MSG>'', ''input_request'']] [] []))"
      and s = "ex_socket [[''<IDS|MSG>'', ''input_request'']] [] []"
      and K = ex_kernel_channels and P = ex_interpreter and block = False and timeout = None]
    msg_ready_reports_without_consuming[where
      ch = "ex_channel BlockingStdInChannel (Some (ex_socket [] [] []))"
      and s = "ex_socket [] [] []"
      and K = ex_kernel_channels and P = ex_interpreter and block = False and timeout = None]
  by (simp add: ex_defs get_msg_def zmq_poll_zero recv_def ZMQSocketChannel_recv_def
      zmq_recv_multipart_def with_polled_def poll_timeout_def)

section \<open>Reading all ready messages\<close>




section \<open>Closing\<close>

text \<open>
  C5. For every channel, \<^verbatim>\<open>close\<close> returns without raising and leaves the socket
  slot empty; closing again changes nothing and does not raise; after \<^verbatim>\<open>close\<close>,
  \<^verbatim>\<open>is_alive\<close> is false. In particular, when the socket's own \<^verbatim>\<open>close\<close> raises
  an exception \<open>e\<close>, the channel's \<^verbatim>\<open>close\<close> does not.
\<close>

theorem close_idempotent_never_raises:
  "close ch = (Inr (), ch\<lparr>socket := None\<rparr>)
   \<and> close (snd (close ch)) = (Inr (), snd (close ch))
   \<and> \<not> is_alive (snd (close ch))
   \<and> zmq_close 0 (s\<lparr>close_raises := Some e\<rparr>) = Inl e
   \<and> close (ch\<lparr>socket := Some (s\<lparr>close_raises := Some e\<rparr>)\<rparr>) =
       (Inr (), ch\<lparr>socket := None\<rparr>)"
  by (simp add: close_def zmq_close_def is_alive_def split: option.splits sum.splits)

section \<open>The heartbeat channel\<close>

text \<open>
  C9. The blocking heartbeat channel's \<^verbatim>\<open>time_to_dead\<close> is 1, and its
  \<^verbatim>\<open>call_handlers\<close> does nothing: for every argument it returns \<^verbatim>\<open>None\<close> and leaves
  the object as it was.
\<close>

theorem heartbeat_handler_is_noop:
  "BlockingHBChannel_time_to_dead = 1
   \<and> BlockingHBChannel_call_handlers self since_last_heartbeat = ((), self)"
  by (simp add: BlockingHBChannel_time_to_dead_def BlockingHBChannel_call_handlers_def)

end
